theory Spec2Isabelle
  imports Complex_Main "HOL-Library.AList" "HOL-Library.Sublist"
begin

section \<open>JavaScript values used by the asset manager\<close>

text \<open>
  A JavaScript object used as a dictionary is the list of its own enumerable properties in
  the order of \<open>Object.entries\<close>, with distinct keys: \<open>map_of\<close> reads an own key and
  \<open>Object.keys(o).length\<close> is \<open>length\<close>.
\<close>

type_synonym 'v obj = "(string \<times> 'v) list"

text \<open>
  The assignment \<open>o[k] = v\<close> on an object created by \<open>{}\<close>. An existing key keeps its
  place. A new key that is an array index (a decimal numeral without leading zero, below
  \<open>2^32 - 1\<close>) is listed among the array indices in ascending order, before all other keys;
  any other new key goes to the end. The key \<open>__proto__\<close> is the inherited accessor: assigning
  to it creates no own property (what it does to the prototype is not modelled).
\<close>

definition is_digit :: "char \<Rightarrow> bool" where
  "is_digit c = (c \<in> set ''0123456789'')"

definition dec_val :: "string \<Rightarrow> int" where
  "dec_val k = foldl (\<lambda>n c. 10 * n + (of_char c - 48)) 0 k"

definition is_array_index :: "string \<Rightarrow> bool" where
  "is_array_index k =
     (case k of
        [] \<Rightarrow> False
      | c # cs \<Rightarrow> list_all is_digit k \<and> (cs = [] \<or> c \<noteq> CHR ''0'') \<and> dec_val k < 4294967295)"

fun obj_insert :: "string \<Rightarrow> 'v \<Rightarrow> 'v obj \<Rightarrow> 'v obj" where
  "obj_insert k v [] = [(k, v)]"
| "obj_insert k v (e # es) =
     (if is_array_index k \<and> (\<not> is_array_index (fst e) \<or> dec_val k < dec_val (fst e))
      then (k, v) # e # es
      else e # obj_insert k v es)"

definition obj_set :: "string \<Rightarrow> 'v \<Rightarrow> 'v obj \<Rightarrow> 'v obj" where
  "obj_set k v ob =
     (if k = ''__proto__'' then ob
      else if k \<in> fst ` set ob then AList.update k v ob
      else obj_insert k v ob)"

text \<open>
  The values that occur in the category maps and in load requests. \<open>Url u\<close> is a plain
  string. \<open>Descriptor img\<close> is a spritesheet JSON descriptor whose \<open>meta.image\<close> is \<open>img\<close>.
  \<open>Howl src\<close> is the object built by \<open>new Howl({ src: [src] })\<close>. \<open>Spritesheet tex data\<close> is
  the object built by \<open>new Spritesheet(tex, data)\<close> from a texture and a descriptor. Both
  constructors belong to external libraries and are kept abstract.
\<close>

datatype jsval =
    Url string
  | Descriptor string
  | Howl jsval
  | Spritesheet string jsval

datatype js_error = TypeError

subsection \<open>String primitives\<close>

text \<open>\<open>s.split(c)\<close> for a one-character separator: never empty, \<open>"".split(".") = [""]\<close>.\<close>

fun split_on :: "char \<Rightarrow> string \<Rightarrow> string list" where
  "split_on c [] = [Nil]"
| "split_on c (x # xs) =
     (if x = c then [] # split_on c xs
      else (case split_on c xs of
              [] \<Rightarrow> [x # Nil]
            | p # ps \<Rightarrow> (x # p) # ps))"

text \<open>\<open>s.replace(pat, rep)\<close> with a string pattern: only the first occurrence is replaced.\<close>

fun replace_first :: "string \<Rightarrow> string \<Rightarrow> string \<Rightarrow> string" where
  "replace_first pat rep [] = (if pat = [] then rep else [])"
| "replace_first pat rep (x # xs) =
     (if prefix pat (x # xs) then rep @ drop (length pat) (x # xs)
      else x # replace_first pat rep xs)"

definition IMG_EXTENSIONS :: "string list" where
  "IMG_EXTENSIONS = [''jpeg'', ''jpg'', ''png'']"

definition SOUND_EXTENSIONS :: "string list" where
  "SOUND_EXTENSIONS = [''wav'', ''ogg'', ''m4a'', ''mp3'']"

definition FONT_EXTENSIONS :: "string list" where
  "FONT_EXTENSIONS = [''xml'', ''fnt'']"

definition SPRITESHEET_EXTENSIONS :: "string list" where
  "SPRITESHEET_EXTENSIONS = [''json'']"

text \<open>\<open>list.indexOf(ext) > -1\<close>, where \<open>ext\<close> may be \<open>undefined\<close> (\<open>None\<close>).\<close>

definition has_ext :: "string list \<Rightarrow> string option \<Rightarrow> bool" where
  "has_ext exts ext = (case ext of None \<Rightarrow> False | Some e \<Rightarrow> e \<in> set exts)"

section \<open>The asset manager and its manifest scan\<close>

record AssetManager =
  this_assets :: "string obj"
  this_sounds :: "jsval obj"
  this_images :: "jsval obj"
  this_fonts :: "jsval obj"
  this_spritesheets :: "jsval obj"

text \<open>The destructuring \<open>[id, ext] = filename.split(".")\<close>: the first two pieces.\<close>

definition id_part :: "string \<Rightarrow> string" where
  "id_part filename = (case split_on CHR ''.'' filename of [] \<Rightarrow> [] | p # _ \<Rightarrow> p)"

definition ext_part :: "string \<Rightarrow> string option" where
  "ext_part filename =
     (case split_on CHR ''.'' filename of
        [] \<Rightarrow> None
      | [p] \<Rightarrow> None
      | p # e # _ \<Rightarrow> Some e)"

definition asset_id :: "string \<Rightarrow> string" where
  "asset_id filename = replace_first ''/src/assets/'' [] (id_part filename)"

definition asset_url :: "string \<Rightarrow> string" where
  "asset_url filename = replace_first ''src/assets/'' [] filename"

text \<open>The body of the \<open>forEach\<close> callback of \<open>_importAssets\<close>, for one file name.\<close>

definition importAsset :: "AssetManager \<Rightarrow> string \<Rightarrow> AssetManager" where
  "importAsset s filename =
     (let ext = ext_part filename;
          ident = asset_id filename;
          url = asset_url filename;
          s0 = s\<lparr>this_assets := obj_set ident url (this_assets s)\<rparr>;
          s1 = (if has_ext IMG_EXTENSIONS ext
                then s0\<lparr>this_images := obj_set ident (Url url) (this_images s0)\<rparr> else s0);
          s2 = (if has_ext SOUND_EXTENSIONS ext
                then s1\<lparr>this_sounds := obj_set ident (Url url) (this_sounds s1)\<rparr> else s1);
          s3 = (if has_ext FONT_EXTENSIONS ext
                then s2\<lparr>this_fonts := obj_set ident (Url url) (this_fonts s2)\<rparr> else s2)
      in (if has_ext SPRITESHEET_EXTENSIONS ext
          then s3\<lparr>this_spritesheets := obj_set ident (Url url) (this_spritesheets s3)\<rparr>
          else s3))"

text \<open>
  \<open>_importAssets\<close> runs the callback over the keys of the bundler's glob result, which is
  the parameter \<open>files\<close>. The callback is declared \<open>async\<close> but never awaits, so each call
  runs to its end before the next one starts.
\<close>

definition importAssets :: "string list \<Rightarrow> AssetManager \<Rightarrow> AssetManager" where
  "importAssets files s = foldl importAsset s files"

text \<open>The constructor: five empty maps, then the scan.\<close>

definition new_AssetManager :: "string list \<Rightarrow> AssetManager" where
  "new_AssetManager files =
     importAssets files
       \<lparr>this_assets = [], this_sounds = [], this_images = [], this_fonts = [],
        this_spritesheets = []\<rparr>"

section \<open>Load requests and the state of one \<open>load()\<close> call\<close>

text \<open>
  A load request is an object with up to four keys; \<open>None\<close> is an absent key. A key that
  is present and holds \<open>undefined\<close> behaves as one that holds an empty object, \<open>Some []\<close>:
  it counts as a key and is not dispatched. Requests with other keys are not represented.
\<close>

record request =
  images :: "jsval obj option"
  sounds :: "jsval obj option"
  fonts :: "jsval obj option"
  spritesheets :: "jsval obj option"

text \<open>\<open>Object.keys(assets).length\<close>: the keys present, whatever they hold.\<close>

definition present :: "jsval obj option \<Rightarrow> nat" where
  "present m = (case m of None \<Rightarrow> 0 | Some _ \<Rightarrow> 1)"

definition keys_count :: "request \<Rightarrow> nat" where
  "keys_count r = present (images r) + present (sounds r) + present (fonts r)
                  + present (spritesheets r)"

text \<open>\<open>m ? Object.keys(m).length : 0\<close>, and the entries of a category that is present.\<close>

definition count_of :: "jsval obj option \<Rightarrow> nat" where
  "count_of m = (case m of None \<Rightarrow> 0 | Some kvs \<Rightarrow> length kvs)"

definition entries_of :: "jsval obj option \<Rightarrow> jsval obj" where
  "entries_of m = (case m of None \<Rightarrow> [] | Some kvs \<Rightarrow> kvs)"

datatype promise = Pending | Fulfilled | Rejected

text \<open>A promise settles once; later calls of \<open>resolve\<close> or \<open>reject\<close> are ignored.\<close>

definition settle :: "promise \<Rightarrow> promise \<Rightarrow> promise" where
  "settle p outcome = (if p = Pending then outcome else p)"

text \<open>
  \<open>Promise.all\<close>: rejected as soon as one element is, fulfilled once all are. An element
  that is not a promise counts as fulfilled.
\<close>

definition promise_all :: "promise list \<Rightarrow> promise" where
  "promise_all ps =
     (if Rejected \<in> set ps then Rejected
      else if list_all (\<lambda>p. p = Fulfilled) ps then Fulfilled
      else Pending)"

text \<open>
  A \<open>Loader\<close> of the rendering library, as far as the manager sees it: the \<open>add(id, url)\<close>
  calls it received, and the promise built by \<open>new Promise(loader.load.bind(loader))\<close>.
  When and how the library settles that promise is an input of the model.
\<close>

record loader =
  queue :: "jsval obj"
  completion :: promise

text \<open>
  The variables of one \<open>load()\<close> call that its closures share, together with the manager
  the call mutates. \<open>reported\<close> lists the arguments \<open>progressCallback\<close> has received, oldest
  first. \<open>sheetsRequest\<close> is the \<open>spritesheets\<close> argument captured by the spritesheet
  handler, \<open>parsing\<close> counts \<open>spritesheet.parse\<close> calls whose callback has not run yet, and
  \<open>thrown\<close> is set when \<open>load()\<close> threw instead of returning a promise.
\<close>

record loading =
  mgr :: AssetManager
  assetTypesCount :: nat
  imagesCount :: nat
  loadProgress :: rat
  reported :: "int list"
  imagesLoader :: "loader option"
  soundPromises :: "(string \<times> promise) list option"
  fontsLoader :: "loader option"
  sheetsLoader :: "loader option"
  sheetsRequest :: "jsval obj"
  parsing :: nat
  thrown :: "js_error option"

text \<open>
  Numbers are exact rationals here. The code computes with IEEE doubles, and
  \<open>parseInt(x, 10)\<close> reads the decimal string of \<open>x\<close>. The two agree where every
  intermediate value is a double and the sum is zero or lies between \<open>1e-6\<close> and \<open>1e21\<close>,
  where the string has no exponent and \<open>parseInt\<close> drops the fraction. The runs evaluated
  below are of that kind (12.5, 25, 100); nothing is derived from this definition for sums
  in general.
\<close>

definition parseInt10 :: "rat \<Rightarrow> int" where
  "parseInt10 x = (if 0 \<le> x then \<lfloor>x\<rfloor> else \<lceil>x\<rceil>)"

definition calcTotalProgress :: "rat \<Rightarrow> loading \<Rightarrow> loading" where
  "calcTotalProgress val L =
     (let p = loadProgress L + val / of_nat (assetTypesCount L)
      in L\<lparr>loadProgress := p, reported := reported L @ [parseInt10 p]\<rparr>)"

text \<open>\<open>loadAssets\<close>: a fresh loader with one \<open>add\<close> per entry; nothing else is touched.\<close>

definition loadAssets :: "jsval obj \<Rightarrow> loader" where
  "loadAssets imgs = \<lparr>queue = imgs, completion = Pending\<rparr>"

text \<open>\<open>_loadSound\<close>: the Howl object is stored at once, the promise waits for "load".\<close>

definition loadSound :: "AssetManager \<Rightarrow> string \<times> jsval \<Rightarrow> AssetManager" where
  "loadSound s e = s\<lparr>this_sounds := obj_set (fst e) (Howl (snd e)) (this_sounds s)\<rparr>"

text \<open>
  \<open>loadSounds\<close>: \<open>Promise.all(soundPromises).then(progressCallback(100))\<close> evaluates
  \<open>progressCallback(100)\<close> while building the call, and hands its result \<open>undefined\<close> to
  \<open>then\<close>. The function returns the array \<open>soundPromises\<close>.
\<close>

definition loadSounds :: "jsval obj \<Rightarrow> loading \<Rightarrow> loading" where
  "loadSounds snds L =
     calcTotalProgress 100
       (L\<lparr>mgr := foldl loadSound (mgr L) snds,
          soundPromises := Some (map (\<lambda>e. (fst e, Pending)) snds)\<rparr>)"

text \<open>\<open>data.meta.image\<close>: only a descriptor has \<open>meta\<close>; on anything else the read throws.\<close>

fun meta_image :: "jsval \<Rightarrow> js_error + string" where
  "meta_image (Descriptor img) = Inr img"
| "meta_image (Url u) = Inl TypeError"
| "meta_image (Howl src) = Inl TypeError"
| "meta_image (Spritesheet tex d) = Inl TypeError"

fun sheet_queue :: "jsval obj \<Rightarrow> js_error + jsval obj" where
  "sheet_queue [] = Inr []"
| "sheet_queue (e # rest) =
     (case meta_image (snd e) of
        Inl err \<Rightarrow> Inl err
      | Inr img \<Rightarrow>
          (case sheet_queue rest of
             Inl err \<Rightarrow> Inl err
           | Inr q \<Rightarrow> Inr ((fst e, Url img) # q)))"

definition loadSpritesheets :: "jsval obj \<Rightarrow> loading \<Rightarrow> loading" where
  "loadSpritesheets sheets L =
     (case sheet_queue sheets of
        Inl err \<Rightarrow> L\<lparr>thrown := Some err\<rparr>
      | Inr q \<Rightarrow> L\<lparr>sheetsLoader := Some \<lparr>queue = q, completion = Pending\<rparr>,
                   sheetsRequest := sheets\<rparr>)"

text \<open>
  \<open>load(assets, progressCallback)\<close> up to its \<open>return\<close>. The argument \<open>None\<close> is the call
  without arguments. The callback is represented by the list \<open>reported\<close>.
\<close>

definition default_request :: "AssetManager \<Rightarrow> request" where
  "default_request s =
     \<lparr>images = Some (this_images s), sounds = Some (this_sounds s),
      fonts = Some (this_fonts s), spritesheets = Some (this_spritesheets s)\<rparr>"

definition load :: "AssetManager \<Rightarrow> request option \<Rightarrow> loading" where
  "load s arg =
     (let assets = (case arg of None \<Rightarrow> default_request s | Some r \<Rightarrow> r);
          L0 = \<lparr>mgr = s, assetTypesCount = keys_count assets,
                imagesCount = count_of (images assets), loadProgress = 0, reported = [],
                imagesLoader = None, soundPromises = None, fontsLoader = None,
                sheetsLoader = None, sheetsRequest = [], parsing = 0, thrown = None\<rparr>;
          L1 = (if count_of (images assets) \<noteq> 0
                then L0\<lparr>imagesLoader := Some (loadAssets (entries_of (images assets)))\<rparr>
                else L0);
          L2 = (if count_of (sounds assets) \<noteq> 0
                then loadSounds (entries_of (sounds assets)) L1 else L1);
          L3 = (if count_of (fonts assets) \<noteq> 0
                then L2\<lparr>fontsLoader := Some (loadAssets (entries_of (fonts assets)))\<rparr>
                else L2)
      in (if count_of (spritesheets assets) \<noteq> 0
          then loadSpritesheets (entries_of (spritesheets assets)) L3 else L3))"

section \<open>What happens after \<open>load()\<close> returned\<close>

datatype loader_kind = ImagesLoader | FontsLoader | SpritesheetsLoader

text \<open>
  The callbacks the libraries invoke later. \<open>Progress k name tex p\<close>: loader \<open>k\<close> dispatches
  \<open>onProgress\<close> for the loaded resource called \<open>name\<close> with texture \<open>tex\<close>, while
  \<open>loader.progress\<close> is \<open>p\<close>. \<open>ProgressError k name p\<close>: the same dispatch for a resource
  that could not be fetched or decoded, which has an \<open>error\<close> and no texture. \<open>Parsed p\<close>: the
  callback given to \<open>spritesheet.parse\<close> runs, while \<open>loader.progress\<close> is \<open>p\<close>. \<open>Complete k\<close>:
  loader \<open>k\<close> calls the callback given to \<open>load\<close>, which is the first argument of the promise
  executor. The loader takes one callback only, so the second argument of the executor is
  never called. \<open>SoundLoaded i\<close>: the Howl of sound \<open>i\<close> emits "load". \<open>SoundFailed i\<close>: it
  emits "loaderror", which nothing listens to.
\<close>

datatype event =
    Progress loader_kind string string rat
  | ProgressError loader_kind string rat
  | Parsed rat
  | Complete loader_kind
  | SoundLoaded string
  | SoundFailed string

text \<open>The loader that belongs to a kind, if it was dispatched.\<close>

definition kind_loader :: "loader_kind \<Rightarrow> loading \<Rightarrow> loader option" where
  "kind_loader k L =
     (case k of ImagesLoader \<Rightarrow> imagesLoader L | FontsLoader \<Rightarrow> fontsLoader L
      | SpritesheetsLoader \<Rightarrow> sheetsLoader L)"

text \<open>
  A loader dispatches \<open>onProgress\<close> only if it exists, and only for a resource that was
  added to it; the name of a resource is the first argument of its \<open>add\<close>.
\<close>

definition reports :: "loader option \<Rightarrow> string \<Rightarrow> bool" where
  "reports l name = (case l of None \<Rightarrow> False | Some ld \<Rightarrow> name \<in> fst ` set (queue ld))"

definition settle_loader :: "promise \<Rightarrow> loader option \<Rightarrow> loader option" where
  "settle_loader outcome l =
     (case l of None \<Rightarrow> None
      | Some ld \<Rightarrow> Some (ld\<lparr>completion := settle (completion ld) outcome\<rparr>))"

definition settle_kind :: "loader_kind \<Rightarrow> promise \<Rightarrow> loading \<Rightarrow> loading" where
  "settle_kind k outcome L =
     (case k of
        ImagesLoader \<Rightarrow> L\<lparr>imagesLoader := settle_loader outcome (imagesLoader L)\<rparr>
      | FontsLoader \<Rightarrow> L\<lparr>fontsLoader := settle_loader outcome (fontsLoader L)\<rparr>
      | SpritesheetsLoader \<Rightarrow> L\<lparr>sheetsLoader := settle_loader outcome (sheetsLoader L)\<rparr>)"

text \<open>
  The \<open>onProgress\<close> handler of \<open>loadSpritesheets\<close> for a loaded resource, up to the call of
  \<open>parse\<close>. The constructor reads \<open>data.frames\<close>, so with \<open>spritesheets[resource.name]\<close>
  undefined it throws and the handler stores nothing.
\<close>

definition store_spritesheet :: "string \<Rightarrow> string \<Rightarrow> loading \<Rightarrow> loading" where
  "store_spritesheet name tex L =
     (case map_of (sheetsRequest L) name of
        None \<Rightarrow> L
      | Some d \<Rightarrow>
          L\<lparr>mgr := (mgr L)\<lparr>this_spritesheets :=
                      obj_set name (Spritesheet tex d) (this_spritesheets (mgr L))\<rparr>,
            parsing := Suc (parsing L)\<rparr>)"

text \<open>
  One callback. For a resource without texture the spritesheet constructor throws on the
  texture, so that handler stores nothing and never calls \<open>parse\<close>.
\<close>

fun step :: "loading \<Rightarrow> event \<Rightarrow> loading" where
  "step L (Progress ImagesLoader name tex p) =
     (if reports (imagesLoader L) name
      then calcTotalProgress (100 / of_nat (imagesCount L)) L else L)"
| "step L (Progress FontsLoader name tex p) =
     (if reports (fontsLoader L) name then calcTotalProgress p L else L)"
| "step L (Progress SpritesheetsLoader name tex p) =
     (if reports (sheetsLoader L) name then store_spritesheet name tex L else L)"
| "step L (ProgressError ImagesLoader name p) =
     (if reports (imagesLoader L) name
      then calcTotalProgress (100 / of_nat (imagesCount L)) L else L)"
| "step L (ProgressError FontsLoader name p) =
     (if reports (fontsLoader L) name then calcTotalProgress p L else L)"
| "step L (ProgressError SpritesheetsLoader name p) = L"
| "step L (Parsed p) =
     (if parsing L = 0 then L else calcTotalProgress p (L\<lparr>parsing := parsing L - 1\<rparr>))"
| "step L (Complete k) = settle_kind k Fulfilled L"
| "step L (SoundLoaded i) =
     L\<lparr>soundPromises :=
          map_option (map (\<lambda>e. if fst e = i then (fst e, settle (snd e) Fulfilled) else e))
            (soundPromises L)\<rparr>"
| "step L (SoundFailed i) = L"

definition run :: "loading \<Rightarrow> event list \<Rightarrow> loading" where
  "run L evs = foldl step L evs"

text \<open>
  The elements of \<open>loadPromises\<close>, in the order they were pushed. The element pushed for
  the sounds is the array returned by \<open>loadSounds\<close>, which \<open>Promise.all\<close> takes as a value.
\<close>

definition loader_promise :: "loader option \<Rightarrow> promise list" where
  "loader_promise l = (case l of None \<Rightarrow> [] | Some ld \<Rightarrow> [completion ld])"

definition loadPromises :: "loading \<Rightarrow> promise list" where
  "loadPromises L =
     loader_promise (imagesLoader L)
     @ (case soundPromises L of None \<Rightarrow> [] | Some _ \<Rightarrow> [Fulfilled])
     @ loader_promise (fontsLoader L)
     @ loader_promise (sheetsLoader L)"

datatype outcome = Threw js_error | Returned promise

definition load_signal :: "loading \<Rightarrow> outcome" where
  "load_signal L =
     (case thrown L of
        Some err \<Rightarrow> Threw err
      | None \<Rightarrow> Returned (promise_all (loadPromises L)))"

text \<open>The sound sub-loader has resolved when every \<open>_loadSound\<close> promise has.\<close>

definition sounds_resolved :: "loading \<Rightarrow> bool" where
  "sounds_resolved L =
     (case soundPromises L of None \<Rightarrow> True
      | Some ps \<Rightarrow> list_all (\<lambda>e. snd e = Fulfilled) ps)"

section \<open>Notions used to state the properties\<close>



section \<open>Basic facts about the model\<close>

lemma floor_rat_numeral [simp]:
  "\<lfloor>numeral a / numeral b :: rat\<rfloor> = numeral a div numeral b"
  using floor_divide_of_int_eq [of "numeral a" "numeral b", where ?'a = rat] by simp

lemmas scan_defs =
  new_AssetManager_def importAssets_def importAsset_def ext_part_def id_part_def
  asset_id_def asset_url_def has_ext_def IMG_EXTENSIONS_def SOUND_EXTENSIONS_def
  FONT_EXTENSIONS_def SPRITESHEET_EXTENSIONS_def
  obj_set_def is_array_index_def is_digit_def dec_val_def

lemmas load_defs =
  load_def default_request_def keys_count_def present_def count_of_def entries_of_def
  loadAssets_def loadSounds_def loadSound_def loadSpritesheets_def calcTotalProgress_def
  parseInt10_def store_spritesheet_def settle_kind_def settle_loader_def settle_def
  load_signal_def loadPromises_def loader_promise_def promise_all_def sounds_resolved_def
  reports_def Let_def

subsection \<open>Assignment to a key\<close>

lemma obj_insert_keys: "fst ` set (obj_insert k v ob) = insert k (fst ` set ob)"
  by (induction ob) auto

lemma obj_insert_map_of:
  "k \<notin> fst ` set ob \<Longrightarrow> map_of (obj_insert k v ob) = (map_of ob)(k \<mapsto> v)"
  by (induction ob) (auto simp: fun_eq_iff)

lemma obj_set_keys:
  "fst ` set (obj_set k v ob) = (if k = ''__proto__'' then fst ` set ob else insert k (fst ` set ob))"
  by (auto simp: obj_set_def obj_insert_keys dom_update)

lemma obj_set_map_of:
  "map_of (obj_set k v ob) = (if k = ''__proto__'' then map_of ob else (map_of ob)(k \<mapsto> v))"
  by (simp add: obj_set_def obj_insert_map_of update_conv')

lemma obj_set_keys_mono: "fst ` set ob \<subseteq> fst ` set (obj_set k v ob)"
  by (auto simp: obj_set_keys)

subsection \<open>Fields that a function leaves alone\<close>



lemma calcTotalProgress_fields [simp]:
  "mgr (calcTotalProgress v L) = mgr L"
  "assetTypesCount (calcTotalProgress v L) = assetTypesCount L"
  "imagesCount (calcTotalProgress v L) = imagesCount L"
  "imagesLoader (calcTotalProgress v L) = imagesLoader L"
  "soundPromises (calcTotalProgress v L) = soundPromises L"
  "fontsLoader (calcTotalProgress v L) = fontsLoader L"
  "sheetsLoader (calcTotalProgress v L) = sheetsLoader L"
  "sheetsRequest (calcTotalProgress v L) = sheetsRequest L"
  "parsing (calcTotalProgress v L) = parsing L"
  "thrown (calcTotalProgress v L) = thrown L"
  by (simp_all add: calcTotalProgress_def Let_def)

lemma calcTotalProgress_progress:
  "loadProgress (calcTotalProgress v L) = loadProgress L + v / of_nat (assetTypesCount L)"
  "reported (calcTotalProgress v L) =
     reported L @ [parseInt10 (loadProgress L + v / of_nat (assetTypesCount L))]"
  by (simp_all add: calcTotalProgress_def Let_def)

lemma settle_kind_fields [simp]:
  "mgr (settle_kind k out L) = mgr L"
  "assetTypesCount (settle_kind k out L) = assetTypesCount L"
  "imagesCount (settle_kind k out L) = imagesCount L"
  "loadProgress (settle_kind k out L) = loadProgress L"
  "reported (settle_kind k out L) = reported L"
  "soundPromises (settle_kind k out L) = soundPromises L"
  "sheetsRequest (settle_kind k out L) = sheetsRequest L"
  "parsing (settle_kind k out L) = parsing L"
  "thrown (settle_kind k out L) = thrown L"
  by (cases k; simp add: settle_kind_def)+

lemma store_spritesheet_fields [simp]:
  "assetTypesCount (store_spritesheet n t L) = assetTypesCount L"
  "imagesCount (store_spritesheet n t L) = imagesCount L"
  "loadProgress (store_spritesheet n t L) = loadProgress L"
  "reported (store_spritesheet n t L) = reported L"
  "imagesLoader (store_spritesheet n t L) = imagesLoader L"
  "soundPromises (store_spritesheet n t L) = soundPromises L"
  "fontsLoader (store_spritesheet n t L) = fontsLoader L"
  "sheetsLoader (store_spritesheet n t L) = sheetsLoader L"
  "sheetsRequest (store_spritesheet n t L) = sheetsRequest L"
  "thrown (store_spritesheet n t L) = thrown L"
  "this_assets (mgr (store_spritesheet n t L)) = this_assets (mgr L)"
  "this_images (mgr (store_spritesheet n t L)) = this_images (mgr L)"
  "this_fonts (mgr (store_spritesheet n t L)) = this_fonts (mgr L)"
  "this_sounds (mgr (store_spritesheet n t L)) = this_sounds (mgr L)"
  by (simp_all add: store_spritesheet_def split: option.splits)

lemma step_unchanged:
  "assetTypesCount (step L e) = assetTypesCount L"
  "imagesCount (step L e) = imagesCount L"
  "sheetsRequest (step L e) = sheetsRequest L"
  "thrown (step L e) = thrown L"
  "this_assets (mgr (step L e)) = this_assets (mgr L)"
  "this_images (mgr (step L e)) = this_images (mgr L)"
  "this_fonts (mgr (step L e)) = this_fonts (mgr L)"
  "this_sounds (mgr (step L e)) = this_sounds (mgr L)"
  by (induction L e rule: step.induct; simp)+

lemma run_Nil [simp]: "run L [] = L"
  by (simp add: run_def)

lemma run_Cons [simp]: "run L (e # evs) = run (step L e) evs"
  by (simp add: run_def)

lemma run_append: "run L (xs @ ys) = run (run L xs) ys"
  by (simp add: run_def)


lemma run_unchanged:
  "assetTypesCount (run L evs) = assetTypesCount L"
  "imagesCount (run L evs) = imagesCount L"
  "sheetsRequest (run L evs) = sheetsRequest L"
  "thrown (run L evs) = thrown L"
  "this_assets (mgr (run L evs)) = this_assets (mgr L)"
  "this_images (mgr (run L evs)) = this_images (mgr L)"
  "this_fonts (mgr (run L evs)) = this_fonts (mgr L)"
  "this_sounds (mgr (run L evs)) = this_sounds (mgr L)"
  by (induction evs arbitrary: L; simp add: step_unchanged)+

lemma foldl_loadSound_fields [simp]:
  "this_assets (foldl loadSound s snds) = this_assets s"
  "this_images (foldl loadSound s snds) = this_images s"
  "this_fonts (foldl loadSound s snds) = this_fonts s"
  "this_spritesheets (foldl loadSound s snds) = this_spritesheets s"
  by (induction snds arbitrary: s; simp add: loadSound_def)+

lemma loadSounds_fields [simp]:
  "assetTypesCount (loadSounds snds L) = assetTypesCount L"
  "imagesCount (loadSounds snds L) = imagesCount L"
  "imagesLoader (loadSounds snds L) = imagesLoader L"
  "fontsLoader (loadSounds snds L) = fontsLoader L"
  "sheetsLoader (loadSounds snds L) = sheetsLoader L"
  "sheetsRequest (loadSounds snds L) = sheetsRequest L"
  "parsing (loadSounds snds L) = parsing L"
  "thrown (loadSounds snds L) = thrown L"
  "mgr (loadSounds snds L) = foldl loadSound (mgr L) snds"
  "soundPromises (loadSounds snds L) = Some (map (\<lambda>e. (fst e, Pending)) snds)"
  by (simp_all add: loadSounds_def)

lemma loadSounds_progress:
  "loadProgress (loadSounds snds L) = loadProgress L + 100 / of_nat (assetTypesCount L)"
  "reported (loadSounds snds L) =
     reported L @ [parseInt10 (loadProgress L + 100 / of_nat (assetTypesCount L))]"
  by (simp_all add: loadSounds_def calcTotalProgress_progress)

lemma loadSpritesheets_fields [simp]:
  "mgr (loadSpritesheets sh L) = mgr L"
  "assetTypesCount (loadSpritesheets sh L) = assetTypesCount L"
  "imagesCount (loadSpritesheets sh L) = imagesCount L"
  "loadProgress (loadSpritesheets sh L) = loadProgress L"
  "reported (loadSpritesheets sh L) = reported L"
  "imagesLoader (loadSpritesheets sh L) = imagesLoader L"
  "soundPromises (loadSpritesheets sh L) = soundPromises L"
  "fontsLoader (loadSpritesheets sh L) = fontsLoader L"
  "parsing (loadSpritesheets sh L) = parsing L"
  by (simp_all add: loadSpritesheets_def split: sum.splits)

lemma load_maps:
  "this_assets (mgr (load s arg)) = this_assets s"
  "this_images (mgr (load s arg)) = this_images s"
  "this_fonts (mgr (load s arg)) = this_fonts s"
  "this_spritesheets (mgr (load s arg)) = this_spritesheets s"
  by (simp_all add: load_def Let_def)

lemma load_counts:
  "assetTypesCount (load s (Some r)) = keys_count r"
  "imagesCount (load s (Some r)) = count_of (images r)"
  "parsing (load s arg) = 0"
  by (simp_all add: load_def Let_def)

lemma load_loaders:
  "imagesLoader (load s (Some r)) =
     (if count_of (images r) = 0 then None else Some (loadAssets (entries_of (images r))))"
  "fontsLoader (load s (Some r)) =
     (if count_of (fonts r) = 0 then None else Some (loadAssets (entries_of (fonts r))))"
  "soundPromises (load s (Some r)) =
     (if count_of (sounds r) = 0 then None
      else Some (map (\<lambda>e. (fst e, Pending)) (entries_of (sounds r))))"
  by (simp_all add: load_def Let_def)

subsection \<open>Progress aggregation\<close>

text \<open>
  The divisions of the progress aggregation are never by zero: a callback is reported only
  if some category was dispatched, whose key then counts, and the images callback exists
  only if there is an image.
\<close>

lemma load_reported_counts: "reported (load s arg) \<noteq> [] \<Longrightarrow> 0 < assetTypesCount (load s arg)"
  by (cases arg)
     (auto simp: load_def Let_def default_request_def keys_count_def present_def count_of_def
                 loadSounds_progress
           split: if_splits option.splits)

lemma load_dispatched_counts:
  "imagesLoader (load s arg) \<noteq> None \<or> fontsLoader (load s arg) \<noteq> None
   \<or> sheetsLoader (load s arg) \<noteq> None \<Longrightarrow> 0 < assetTypesCount (load s arg)"
  by (cases arg)
     (auto simp: load_def Let_def default_request_def keys_count_def present_def count_of_def
                 loadSpritesheets_def
           split: if_splits option.splits sum.splits)

lemma load_images_count: "imagesLoader (load s arg) \<noteq> None \<Longrightarrow> 0 < imagesCount (load s arg)"
  by (auto simp: load_def Let_def loadSpritesheets_def split: if_splits sum.splits)

subsection \<open>Loaders and their promises\<close>

lemma settle_loader_simps [simp]:
  "settle_loader out None = None"
  "settle_loader out (Some ld) = Some (ld\<lparr>completion := settle (completion ld) out\<rparr>)"
  by (simp_all add: settle_loader_def)

lemma settle_loader_queue [simp]:
  "map_option queue (settle_loader out l) = map_option queue l"
  by (cases l) simp_all

lemma settle_loader_None [simp]: "settle_loader out l = None \<longleftrightarrow> l = None"
  by (cases l) simp_all

lemma kind_loader_settle_kind:
  "kind_loader k (settle_kind k' out L) =
     (if k = k' then settle_loader out (kind_loader k L) else kind_loader k L)"
  by (cases k; cases k') (simp_all add: kind_loader_def settle_kind_def)

lemma kind_loader_reads [simp]:
  "kind_loader k (calcTotalProgress v L) = kind_loader k L"
  "kind_loader k (store_spritesheet n t L) = kind_loader k L"
  "kind_loader k (L\<lparr>parsing := m\<rparr>) = kind_loader k L"
  "kind_loader k (L\<lparr>soundPromises := sp\<rparr>) = kind_loader k L"
  by (cases k; simp add: kind_loader_def)+

lemma kind_loader_step:
  "kind_loader k (step L e) =
     (if e = Complete k then settle_loader Fulfilled (kind_loader k L) else kind_loader k L)"
  by (induction L e rule: step.induct) (auto simp: kind_loader_settle_kind)

lemma step_queue: "map_option queue (kind_loader k (step L e)) = map_option queue (kind_loader k L)"
  by (simp add: kind_loader_step)

lemma run_queue: "map_option queue (kind_loader k (run L evs)) = map_option queue (kind_loader k L)"
  by (induction evs arbitrary: L) (simp_all add: step_queue)

lemma run_loader_None: "kind_loader k (run L evs) = None \<longleftrightarrow> kind_loader k L = None"
  using run_queue [of k L evs] by (metis option.map_disc_iff)


subsection \<open>The scan\<close>

lemma importAsset_maps:
  "this_assets (importAsset s f) = obj_set (asset_id f) (asset_url f) (this_assets s)"
  "this_images (importAsset s f) =
     (if has_ext IMG_EXTENSIONS (ext_part f)
      then obj_set (asset_id f) (Url (asset_url f)) (this_images s) else this_images s)"
  "this_sounds (importAsset s f) =
     (if has_ext SOUND_EXTENSIONS (ext_part f)
      then obj_set (asset_id f) (Url (asset_url f)) (this_sounds s) else this_sounds s)"
  "this_fonts (importAsset s f) =
     (if has_ext FONT_EXTENSIONS (ext_part f)
      then obj_set (asset_id f) (Url (asset_url f)) (this_fonts s) else this_fonts s)"
  "this_spritesheets (importAsset s f) =
     (if has_ext SPRITESHEET_EXTENSIONS (ext_part f)
      then obj_set (asset_id f) (Url (asset_url f)) (this_spritesheets s)
      else this_spritesheets s)"
  by (simp_all add: importAsset_def Let_def)

lemma importAssets_snoc: "importAssets (fs @ [f]) s = importAsset (importAssets fs s) f"
  by (simp add: importAssets_def)

lemma importAssets_Nil: "importAssets [] s = s"
  by (simp add: importAssets_def)

text \<open>
  A map that the scan writes for the extensions \<open>exts\<close> holds, under each key, the URL of
  a scanned file with that id and one of these extensions; and every such file is there.
\<close>

lemma scanned_category_sound:
  assumes sel: "\<And>s f. sel (importAsset s f) =
      (if has_ext exts (ext_part f)
       then obj_set (asset_id f) (Url (asset_url f)) (sel s) else sel s)"
    and "map_of (sel (importAssets files s0)) k = Some v"
  shows "map_of (sel s0) k = Some v
         \<or> (\<exists>f\<in>set files. asset_id f = k \<and> has_ext exts (ext_part f) \<and> v = Url (asset_url f))"
  using assms(2)
proof (induction files arbitrary: v rule: rev_induct)
  case Nil
  then show ?case by (simp add: importAssets_Nil)
next
  case (snoc f fs)
  show ?case
  proof (cases "has_ext exts (ext_part f) \<and> asset_id f = k \<and> k \<noteq> ''__proto__''")
    case True
    then have "v = Url (asset_url f)"
      using snoc.prems by (simp add: importAssets_snoc sel obj_set_map_of)
    then show ?thesis using True by auto
  next
    case False
    then have "map_of (sel (importAssets fs s0)) k = Some v"
      using snoc.prems by (auto simp: importAssets_snoc sel obj_set_map_of split: if_splits)
    then show ?thesis using snoc.IH by auto
  qed
qed

lemma scanned_category_complete:
  assumes sel: "\<And>s f. sel (importAsset s f) =
      (if has_ext exts (ext_part f)
       then obj_set (asset_id f) (Url (asset_url f)) (sel s) else sel s)"
  shows "fst ` set (sel (importAssets files s0))
         = fst ` set (sel s0)
           \<union> (asset_id ` {f \<in> set files. has_ext exts (ext_part f)} - {''__proto__''})"
proof (induction files rule: rev_induct)
  case Nil
  then show ?case by (simp add: importAssets_Nil)
next
  case (snoc f fs)
  then show ?case
    by (auto simp: importAssets_snoc sel obj_set_keys)
qed

lemma scanned_assets_sound:
  "map_of (this_assets (importAssets files s0)) k = Some u \<Longrightarrow>
     map_of (this_assets s0) k = Some u \<or> (\<exists>f\<in>set files. asset_id f = k \<and> u = asset_url f)"
proof (induction files arbitrary: u rule: rev_induct)
  case Nil
  then show ?case by (simp add: importAssets_Nil)
next
  case (snoc f fs)
  show ?case
  proof (cases "asset_id f = k \<and> k \<noteq> ''__proto__''")
    case True
    then have "u = asset_url f"
      using snoc.prems by (simp add: importAssets_snoc importAsset_maps obj_set_map_of)
    then show ?thesis using True by auto
  next
    case False
    then have "map_of (this_assets (importAssets fs s0)) k = Some u"
      using snoc.prems
      by (auto simp: importAssets_snoc importAsset_maps obj_set_map_of split: if_splits)
    then show ?thesis using snoc.IH by auto
  qed
qed

lemma scanned_assets_keys:
  "fst ` set (this_assets (importAssets files s0))
     = fst ` set (this_assets s0) \<union> (asset_id ` set files - {''__proto__''})"
  by (induction files rule: rev_induct)
     (auto simp: importAssets_Nil importAssets_snoc importAsset_maps obj_set_keys)

lemma key_has_value: "k \<in> fst ` set kvs \<Longrightarrow> \<exists>v. map_of kvs k = Some v"
  by (metis map_of_eq_None_iff not_Some_eq)

text \<open>One category after the constructor.\<close>

lemma new_category:
  assumes sel: "\<And>s f. sel (importAsset s f) =
      (if has_ext exts (ext_part f)
       then obj_set (asset_id f) (Url (asset_url f)) (sel s) else sel s)"
    and empty: "sel \<lparr>this_assets = [], this_sounds = [], this_images = [], this_fonts = [],
        this_spritesheets = []\<rparr> = []"
  shows "fst ` set (sel (new_AssetManager files))
           = asset_id ` {f \<in> set files. has_ext exts (ext_part f)} - {''__proto__''}"
    and "fst ` set (sel (new_AssetManager files)) \<subseteq> fst ` set (this_assets (new_AssetManager files))"
    and "inj_on asset_id (set files) \<Longrightarrow> k \<in> fst ` set (sel (new_AssetManager files)) \<Longrightarrow>
           \<exists>f\<in>set files. asset_id f = k \<and> has_ext exts (ext_part f)
              \<and> map_of (sel (new_AssetManager files)) k = Some (Url (asset_url f))
              \<and> map_of (this_assets (new_AssetManager files)) k = Some (asset_url f)"
proof -
  show keys: "fst ` set (sel (new_AssetManager files))
           = asset_id ` {f \<in> set files. has_ext exts (ext_part f)} - {''__proto__''}"
    unfolding new_AssetManager_def scanned_category_complete [of sel exts, OF sel]
    by (simp add: empty)
  have akeys: "fst ` set (this_assets (new_AssetManager files))
      = asset_id ` set files - {''__proto__''}"
    unfolding new_AssetManager_def scanned_assets_keys by simp
  show sub: "fst ` set (sel (new_AssetManager files))
      \<subseteq> fst ` set (this_assets (new_AssetManager files))"
    unfolding keys akeys by auto
  assume inj: "inj_on asset_id (set files)" and k: "k \<in> fst ` set (sel (new_AssetManager files))"
  from k obtain v where v: "map_of (sel (new_AssetManager files)) k = Some v"
    using key_has_value by fastforce
  then obtain f where f: "f \<in> set files" "asset_id f = k" "has_ext exts (ext_part f)"
      "v = Url (asset_url f)"
    using scanned_category_sound [of sel exts files _ k v, OF sel] empty
    unfolding new_AssetManager_def by fastforce
  have "k \<in> fst ` set (this_assets (new_AssetManager files))"
    using k sub by blast
  then obtain u where u: "map_of (this_assets (new_AssetManager files)) k = Some u"
    using key_has_value by fastforce
  then obtain g where g: "g \<in> set files" "asset_id g = k" "u = asset_url g"
    using scanned_assets_sound [of files _ k u] unfolding new_AssetManager_def by fastforce
  have "g = f" using inj f g by (auto dest: inj_onD)
  then show "\<exists>f\<in>set files. asset_id f = k \<and> has_ext exts (ext_part f)
              \<and> map_of (sel (new_AssetManager files)) k = Some (Url (asset_url f))
              \<and> map_of (this_assets (new_AssetManager files)) k = Some (asset_url f)"
    using f g u v by auto
qed

subsection \<open>File names under the asset root, and histories of calls\<close>










lemma step_sound_ids:
  "map_option (map fst) (soundPromises (step L e)) = map_option (map fst) (soundPromises L)"
proof (induction L e rule: step.induct)
  case (9 L i)
  show ?case
    by (cases "soundPromises L") (simp_all add: comp_def if_distrib cong: if_cong)
qed simp_all

lemma run_sound_ids:
  "map_option (map fst) (soundPromises (run L evs)) = map_option (map fst) (soundPromises L)"
  by (induction evs arbitrary: L) (simp_all add: step_sound_ids)

subsection \<open>The returned promise is never rejected\<close>






subsection \<open>No entry is removed\<close>








subsection \<open>Spritesheets and the request\<close>



lemma sheetsRequest_load:
  "sheetsLoader (load s (Some r)) \<noteq> None \<Longrightarrow> sheetsRequest (load s (Some r)) = entries_of (spritesheets r)"
  "sheetsLoader (load s (Some r)) = None \<Longrightarrow> sheetsRequest (load s (Some r)) = []"
  by (auto simp: load_def Let_def loadSpritesheets_def split: if_splits sum.splits)

subsection \<open>The combined map after the scan\<close>


section \<open>The claims of the specification\<close>

text \<open>
  Claim C1: when every item of a \<open>load()\<close> call completes, the last value given to the
  progress callback is 100, each non-empty category weighing 100 divided by the number of
  non-empty categories. The code divides by the number of keys of the request instead, so
  a category that is present and empty is counted and never contributes. The run below is the
  request of the splash scene over a manifest without fonts: two images, the other three
  categories present and empty. Both images load, the promise is fulfilled, and the
  callback has received 12 and then 25.
\<close>

theorem final_progress_with_empty_categories:
  "reported
     (run (load (new_AssetManager [''/src/assets/bunny.png'', ''/src/assets/logo.png''])
             (Some \<lparr>images = Some [(''logo'', Url ''/logo.png''), (''bunny'', Url ''/bunny.png'')],
                    sounds = Some [], fonts = Some [], spritesheets = Some []\<rparr>))
        [Progress ImagesLoader ''logo'' ''t1'' 50, Progress ImagesLoader ''bunny'' ''t2'' 100,
         Complete ImagesLoader]) = [12, 25]
   \<and> load_signal
     (run (load (new_AssetManager [''/src/assets/bunny.png'', ''/src/assets/logo.png''])
             (Some \<lparr>images = Some [(''logo'', Url ''/logo.png''), (''bunny'', Url ''/bunny.png'')],
                    sounds = Some [], fonts = Some [], spritesheets = Some []\<rparr>))
        [Progress ImagesLoader ''logo'' ''t1'' 50, Progress ImagesLoader ''bunny'' ''t2'' 100,
         Complete ImagesLoader]) = Returned Fulfilled"
  by (simp add: load_defs)

text \<open>
  Claim C2: the promise returned by \<open>load()\<close> resolves only after every dispatched
  sub-loader has resolved. For the sounds the code pushes the array returned by
  \<open>loadSounds\<close>, not a promise, so \<open>Promise.all\<close> does not wait for them: right after the
  call below the returned promise is fulfilled while the only sound is still pending.
\<close>

theorem load_fulfilled_before_sounds:
  "load_signal
     (load (new_AssetManager [])
        (Some \<lparr>images = None, sounds = Some [(''click'', Url ''/click.wav'')],
               fonts = None, spritesheets = None\<rparr>)) = Returned Fulfilled
   \<and> soundPromises
     (load (new_AssetManager [])
        (Some \<lparr>images = None, sounds = Some [(''click'', Url ''/click.wav'')],
               fonts = None, spritesheets = None\<rparr>)) = Some [(''click'', Pending)]
   \<and> \<not> sounds_resolved
     (load (new_AssetManager [])
        (Some \<lparr>images = None, sounds = Some [(''click'', Url ''/click.wav'')],
               fonts = None, spritesheets = None\<rparr>))"
  by (simp add: load_defs scan_defs)

text \<open>
  Claim C4: the sounds contribute nothing to the progress until all of them have loaded,
  and then their whole weight in one step. The code evaluates \<open>progressCallback(100)\<close>
  while it builds the \<open>then\<close> call, so the whole weight is reported during the dispatch,
  when both sounds below are still pending, and nothing is reported when they have loaded.
\<close>

theorem sound_progress_reported_at_dispatch:
  "reported
     (load (new_AssetManager [])
        (Some \<lparr>images = None,
               sounds = Some [(''click'', Url ''/click.wav''), (''music'', Url ''/music.mp3'')],
               fonts = None, spritesheets = None\<rparr>)) = [100]
   \<and> soundPromises
     (load (new_AssetManager [])
        (Some \<lparr>images = None,
               sounds = Some [(''click'', Url ''/click.wav''), (''music'', Url ''/music.mp3'')],
               fonts = None, spritesheets = None\<rparr>))
     = Some [(''click'', Pending), (''music'', Pending)]
   \<and> reported
     (run (load (new_AssetManager [])
        (Some \<lparr>images = None,
               sounds = Some [(''click'', Url ''/click.wav''), (''music'', Url ''/music.mp3'')],
               fonts = None, spritesheets = None\<rparr>))
        [SoundLoaded ''click'', SoundLoaded ''music'']) = [100]
   \<and> sounds_resolved
     (run (load (new_AssetManager [])
        (Some \<lparr>images = None,
               sounds = Some [(''click'', Url ''/click.wav''), (''music'', Url ''/music.mp3'')],
               fonts = None, spritesheets = None\<rparr>))
        [SoundLoaded ''click'', SoundLoaded ''music''])"
  by (simp add: load_defs scan_defs)

text \<open>
  Claim C5: a scanned file is classified by its file extension (jpg, jpeg and png are
  images, and so on), and a file with another extension is recorded in the combined map
  only. The scan takes the second piece of the name split at the dots for the extension,
  which is the extension only when the path has a single dot: \<open>hero.v2.png\<close> ends in
  \<open>png\<close> and is in no category map, and \<open>notes.png.txt\<close> ends in \<open>txt\<close> and is recorded as an
  image.
\<close>

theorem scan_of_names_with_two_dots:
  "new_AssetManager [''/src/assets/hero.v2.png'']
     = \<lparr>this_assets = [(''hero'', ''/hero.v2.png'')], this_sounds = [], this_images = [],
        this_fonts = [], this_spritesheets = []\<rparr>
   \<and> new_AssetManager [''/src/assets/notes.png.txt'']
     = \<lparr>this_assets = [(''notes'', ''/notes.png.txt'')], this_sounds = [],
        this_images = [(''notes'', Url ''/notes.png.txt'')],
        this_fonts = [], this_spritesheets = []\<rparr>"
  by (simp add: scan_defs Let_def)

text \<open>
  Claim C6: once an image or a font of the request has loaded, the decoded resource is in
  the images or fonts map under the requested id. \<open>loadAssets\<close> writes to no map: after the
  image \<open>a\<close> has loaded and the promise is fulfilled, the images map has no entry \<open>a\<close>.
\<close>

theorem images_not_stored_counterexample:
  "load_signal
     (run (load (new_AssetManager [])
             (Some \<lparr>images = Some [(''a'', Url ''/a.png'')], sounds = None, fonts = None,
                    spritesheets = None\<rparr>))
        [Progress ImagesLoader ''a'' ''tex'' 100, Complete ImagesLoader]) = Returned Fulfilled
   \<and> map_of (this_images
        (mgr (run (load (new_AssetManager [])
                (Some \<lparr>images = Some [(''a'', Url ''/a.png'')], sounds = None, fonts = None,
                       spritesheets = None\<rparr>))
           [Progress ImagesLoader ''a'' ''tex'' 100, Complete ImagesLoader]))) ''a'' = None"
  by (simp add: load_defs scan_defs)

text \<open>
  Claim C6 as amended: \<open>load()\<close> leaves the images map and the fonts map as they were, and
  hands every pair of the request to the loader of the category under the requested id.
\<close>

theorem images_fonts_maps_untouched:
  "this_images (mgr (run (load s (Some r)) evs)) = this_images s
   \<and> this_fonts (mgr (run (load s (Some r)) evs)) = this_fonts s
   \<and> map_option queue (imagesLoader (run (load s (Some r)) evs))
       = (if count_of (images r) = 0 then None else Some (entries_of (images r)))
   \<and> map_option queue (fontsLoader (run (load s (Some r)) evs))
       = (if count_of (fonts r) = 0 then None else Some (entries_of (fonts r)))"
proof -
  have "map_option queue (kind_loader ImagesLoader (run (load s (Some r)) evs))
       = (if count_of (images r) = 0 then None else Some (entries_of (images r)))"
    unfolding run_queue by (simp add: kind_loader_def load_loaders loadAssets_def)
  moreover have "map_option queue (kind_loader FontsLoader (run (load s (Some r)) evs))
       = (if count_of (fonts r) = 0 then None else Some (entries_of (fonts r)))"
    unfolding run_queue by (simp add: kind_loader_def load_loaders loadAssets_def)
  ultimately show ?thesis
    unfolding kind_loader_def by (simp add: run_unchanged load_maps)
qed










text \<open>
  What \<open>load()\<close> without arguments does for any manager: it behaves as \<open>load()\<close> given the
  four category maps as they stand. After the scan each map holds the ids of exactly the
  scanned files that the scan took for files of its category (the id \<open>__proto__\<close> apart,
  which cannot be stored), and the images, the fonts and the sounds in the maps are all
  dispatched.
\<close>

theorem default_request_is_the_category_maps:
  "load s None
     = load s (Some \<lparr>images = Some (this_images s), sounds = Some (this_sounds s),
                     fonts = Some (this_fonts s), spritesheets = Some (this_spritesheets s)\<rparr>)
   \<and> fst ` set (this_images (new_AssetManager files))
       = asset_id ` {f \<in> set files. has_ext IMG_EXTENSIONS (ext_part f)} - {''__proto__''}
   \<and> fst ` set (this_sounds (new_AssetManager files))
       = asset_id ` {f \<in> set files. has_ext SOUND_EXTENSIONS (ext_part f)} - {''__proto__''}
   \<and> fst ` set (this_fonts (new_AssetManager files))
       = asset_id ` {f \<in> set files. has_ext FONT_EXTENSIONS (ext_part f)} - {''__proto__''}
   \<and> fst ` set (this_spritesheets (new_AssetManager files))
       = asset_id ` {f \<in> set files. has_ext SPRITESHEET_EXTENSIONS (ext_part f)} - {''__proto__''}
   \<and> map_option queue (imagesLoader (run (load s None) evs))
       = (if this_images s = [] then None else Some (this_images s))
   \<and> map_option queue (fontsLoader (run (load s None) evs))
       = (if this_fonts s = [] then None else Some (this_fonts s))
   \<and> map_option (map fst) (soundPromises (run (load s None) evs))
       = (if this_sounds s = [] then None else Some (map fst (this_sounds s)))"
proof -
  let ?r = "\<lparr>images = Some (this_images s), sounds = Some (this_sounds s),
            fonts = Some (this_fonts s), spritesheets = Some (this_spritesheets s)\<rparr>"
  have same: "load s None = load s (Some ?r)"
    by (simp add: load_def default_request_def)
  have "map_option queue (kind_loader ImagesLoader (run (load s (Some ?r)) evs))
       = (if this_images s = [] then None else Some (this_images s))"
    unfolding run_queue
    by (simp add: kind_loader_def load_loaders loadAssets_def count_of_def entries_of_def)
  then have img: "map_option queue (imagesLoader (run (load s None) evs))
       = (if this_images s = [] then None else Some (this_images s))"
    unfolding same kind_loader_def by simp
  have "map_option queue (kind_loader FontsLoader (run (load s (Some ?r)) evs))
       = (if this_fonts s = [] then None else Some (this_fonts s))"
    unfolding run_queue
    by (simp add: kind_loader_def load_loaders loadAssets_def count_of_def entries_of_def)
  then have fnt: "map_option queue (fontsLoader (run (load s None) evs))
       = (if this_fonts s = [] then None else Some (this_fonts s))"
    unfolding same kind_loader_def by simp
  have snd: "map_option (map fst) (soundPromises (run (load s None) evs))
       = (if this_sounds s = [] then None else Some (map fst (this_sounds s)))"
    unfolding same
    by (simp add: run_sound_ids load_loaders count_of_def entries_of_def comp_def)
  show ?thesis
    using same img fnt snd
      new_category(1) [of this_images, OF importAsset_maps(2)]
      new_category(1) [of this_sounds, OF importAsset_maps(3)]
      new_category(1) [of this_fonts, OF importAsset_maps(4)]
      new_category(1) [of this_spritesheets, OF importAsset_maps(5)]
    by simp
qed

text \<open>
  Claim C10: \<open>load()\<close> without arguments loads the whole scanned manifest, its request being
  the four category maps as the scan filled them. The scan stores a URL for a spritesheet,
  \<open>loadSpritesheets\<close> reads \<open>data.meta.image\<close> of each entry, and a string has no \<open>meta\<close>:
  over a manifest with a \<open>json\<close> file the call throws, after the image was handed to its
  loader, and no spritesheet loader exists.
\<close>

theorem default_load_throws_on_scanned_spritesheet:
  "load_signal
     (load (new_AssetManager [''/src/assets/fire.json'', ''/src/assets/fire.png'']) None)
     = Threw TypeError
   \<and> sheetsLoader
     (load (new_AssetManager [''/src/assets/fire.json'', ''/src/assets/fire.png'']) None) = None
   \<and> map_option queue (imagesLoader
     (load (new_AssetManager [''/src/assets/fire.json'', ''/src/assets/fire.png'']) None))
     = Some [(''fire'', Url ''/fire.png'')]"
  by (simp add: scan_defs load_defs)

end
